theory Spec2Isabelle
  imports Main "HOL-Library.Word"
begin

section \<open>Kokkos SHMEMSpace: the symmetric memory space and its allocation records\<close>

text \<open>
  A shallow embedding of \<^verbatim>\<open>src/SHMEMSPACE/Kokkos_SHMEMSpace.cpp\<close>.
  Pointers and \<^verbatim>\<open>size_t\<close> values are 64-bit words (the null pointer is 0, arithmetic
  wraps around), every function threads an explicit program state, and every way of not
  returning (\<^verbatim>\<open>Kokkos::abort\<close>, a thrown exception, a dereference of a pointer that
  holds no object) is a value of the type \<open>error\<close>.
\<close>

subsection \<open>Data\<close>

type_synonym addr = "64 word"
type_synonym size_t = "64 word"
type_synonym byte = "8 word"

text \<open>
  What the translation unit takes from headers that are not part of the source file:
  \<^verbatim>\<open>sizeof(SharedAllocationHeader)\<close>, \<^verbatim>\<open>SharedAllocationHeader::maximum_label_length\<close>,
  the enumerator \<^verbatim>\<open>Kokkos::Experimental::Symmetric\<close>, the string returned by
  \<^verbatim>\<open>SHMEMSpace::name()\<close>, and the two preprocessor switches the file tests.
  They are parameters of the model.
\<close>

record build =
  sizeof_Header :: size_t
  maximum_label_length :: nat
  Symmetric :: int
  space_name :: string
  KOKKOS_DEBUG :: bool
  KOKKOS_ENABLE_PROFILING :: bool

record SHMEMSpace =
  allocation_mode :: int
  extent :: int

text \<open>The header that precedes the user data: the back-reference and the label buffer.\<close>

record SharedAllocationHeader =
  m_record :: addr
  m_label :: string

text \<open>
  \<^verbatim>\<open>SharedAllocationRecord<void,void>\<close> (the base class) and its SHMEMSpace
  specialisation, which adds \<^verbatim>\<open>m_space\<close>. The deallocation callback \<^verbatim>\<open>m_dealloc\<close>
  is not a field of the model: the only function ever stored there by this file is
  \<^verbatim>\<open>SharedAllocationRecord<SHMEMSpace,void>::deallocate\<close>, which \<open>decrement\<close> calls.
\<close>

record RecordBase =
  m_alloc_ptr :: addr
  m_alloc_size :: size_t
  m_count :: int

record SharedAllocationRecord = RecordBase +
  m_space :: SHMEMSpace

text \<open>Calls to the collaborators (symmetric heap, profiling library), in program order.\<close>

datatype event =
    MallocCall size_t addr
  | FreeCall addr
  | AllocateData string string addr size_t
  | DeallocateData string string addr size_t

datatype error =
    Abort string
  | RuntimeException string
  | AllocationFailure
  | BadAlloc
  | UndefinedBehaviour

text \<open>
  The program state. \<open>memory\<close> holds the bytes of user data; \<open>headers\<close> holds the
  header objects that are readable, by address; \<open>records\<close> holds the live Record objects
  of the C++ heap, by address; \<open>registry\<close> is the list hanging off \<^verbatim>\<open>s_root_record\<close>.
  \<open>malloc_oracle\<close> and \<open>new_oracle\<close> are the answers the symmetric heap and
  \<^verbatim>\<open>operator new\<close> are going to give, so that the model makes no assumption on either.
  \<open>uninitialized_header\<close> is what a default-initialised local
  \<^verbatim>\<open>SharedAllocationHeader\<close> happens to contain.
\<close>

record state =
  memory :: "addr \<Rightarrow> byte"
  headers :: "addr \<rightharpoonup> SharedAllocationHeader"
  records :: "addr \<rightharpoonup> SharedAllocationRecord"
  registry :: "addr list"
  trace :: "event list"
  malloc_oracle :: "addr list"
  new_oracle :: "addr list"
  profileLibraryLoaded :: bool
  uninitialized_header :: SharedAllocationHeader

type_synonym 'a prog = "state \<Rightarrow> (error + 'a) \<times> state"

definition bnd :: "'a prog \<Rightarrow> ('a \<Rightarrow> 'b prog) \<Rightarrow> 'b prog" where
  "bnd m f st = (case m st of (Inl e, st') \<Rightarrow> (Inl e, st') | (Inr x, st') \<Rightarrow> f x st')"

definition ret :: "'a \<Rightarrow> 'a prog" where
  "ret x st = (Inr x, st)"

definition raise :: "error \<Rightarrow> 'a prog" where
  "raise e st = (Inl e, st)"

subsection \<open>The C library and the collaborators\<close>

definition NUL :: char where
  "NUL = CHR 0x00"

text \<open>\<^verbatim>\<open>std::string::c_str()\<close>, and the reading of a \<^verbatim>\<open>char\<close> array as a C string.\<close>

definition c_str :: "string \<Rightarrow> string" where
  "c_str s = takeWhile (\<lambda>c. c \<noteq> NUL) s"

text \<open>
  \<^verbatim>\<open>strncpy(dst, src, n)\<close>: the \<open>n\<close> characters written to \<open>dst\<close>. At most \<open>n\<close>
  characters of the C string are copied, the rest is filled with NUL, and no NUL is
  written when the string has \<open>n\<close> characters or more.
\<close>

definition strncpy :: "string \<Rightarrow> nat \<Rightarrow> string" where
  "strncpy src n = take n src @ replicate (n - length src) NUL"

text \<open>
  \<^verbatim>\<open>memcpy(dst, src, n)\<close>. Two regions of \<open>n\<close> bytes overlap when one starts less than
  \<open>n\<close> bytes after the other; \<^verbatim>\<open>memcpy\<close> is undefined then.
\<close>

definition regions_overlap :: "addr \<Rightarrow> addr \<Rightarrow> size_t \<Rightarrow> bool" where
  "regions_overlap dst src n = (unat (src - dst) < unat n \<or> unat (dst - src) < unat n)"

definition memcpy :: "addr \<Rightarrow> addr \<Rightarrow> size_t \<Rightarrow> unit prog" where
  "memcpy dst src n st =
     (if regions_overlap dst src n then (Inl UndefinedBehaviour, st)
      else (Inr (),
            st\<lparr>memory := (\<lambda>a. if unat (a - dst) < unat n then memory st (src + (a - dst))
                                else memory st a)\<rparr>))"

text \<open>
  \<^verbatim>\<open>shmem_malloc\<close>: the next answer of the symmetric heap (null when it has none left).
  \<^verbatim>\<open>shmem_free\<close>: the block is given back, and the header it held can no longer be read.
\<close>

definition shmem_malloc :: "size_t \<Rightarrow> state \<Rightarrow> addr \<times> state" where
  "shmem_malloc n st =
     (case malloc_oracle st of
        [] \<Rightarrow> (0, st\<lparr>trace := trace st @ [MallocCall n 0]\<rparr>)
      | p # ps \<Rightarrow> (p, st\<lparr>trace := trace st @ [MallocCall n p], malloc_oracle := ps\<rparr>))"

definition shmem_free :: "addr \<Rightarrow> state \<Rightarrow> state" where
  "shmem_free p st = st\<lparr>headers := (headers st)(p := None), trace := trace st @ [FreeCall p]\<rparr>"

subsection \<open>SHMEMSpace\<close>

definition SHMEMSpace_ctor :: "build \<Rightarrow> SHMEMSpace \<Rightarrow> SHMEMSpace" where
  "SHMEMSpace_ctor cfg this = this\<lparr>allocation_mode := Symmetric cfg\<rparr>"

definition impl_set_allocation_mode :: "int \<Rightarrow> SHMEMSpace \<Rightarrow> SHMEMSpace" where
  "impl_set_allocation_mode allocation_mode\<^sub>a this = this\<lparr>allocation_mode := allocation_mode\<^sub>a\<rparr>"

definition impl_set_extent :: "int \<Rightarrow> SHMEMSpace \<Rightarrow> SHMEMSpace" where
  "impl_set_extent extent\<^sub>a this = this\<lparr>extent := extent\<^sub>a\<rparr>"

text \<open>
  \<^verbatim>\<open>SHMEMSpace::allocate\<close>. The two \<^verbatim>\<open>static_assert\<close>s are compile-time checks, and the
  results of \<^verbatim>\<open>shmem_n_pes()\<close> and \<^verbatim>\<open>shmem_my_pe()\<close> are not used.
\<close>

definition SHMEMSpace_allocate :: "build \<Rightarrow> SHMEMSpace \<Rightarrow> size_t \<Rightarrow> addr prog" where
  "SHMEMSpace_allocate cfg this arg_alloc_size st =
     (if arg_alloc_size \<noteq> 0 then
        (if allocation_mode this = Symmetric cfg then
           (case shmem_malloc arg_alloc_size st of (ptr, st') \<Rightarrow> (Inr ptr, st'))
         else (Inl (Abort ''SHMEMSpace only supports symmetric allocation policy.''), st))
      else (Inr 0, st))"

definition SHMEMSpace_deallocate :: "SHMEMSpace \<Rightarrow> addr \<Rightarrow> size_t \<Rightarrow> unit prog" where
  "SHMEMSpace_deallocate this arg_alloc_ptr arg_alloc_size st =
     (Inr (), shmem_free arg_alloc_ptr st)"

subsection \<open>Cross-space copies\<close>

definition DeepCopy_HostSpace_SHMEMSpace :: "addr \<Rightarrow> addr \<Rightarrow> size_t \<Rightarrow> unit prog" where
  "DeepCopy_HostSpace_SHMEMSpace dst src n = memcpy dst src n"

definition DeepCopy_SHMEMSpace_HostSpace :: "addr \<Rightarrow> addr \<Rightarrow> size_t \<Rightarrow> unit prog" where
  "DeepCopy_SHMEMSpace_HostSpace dst src n = memcpy dst src n"

text \<open>
  Modelled from the spec: \<^verbatim>\<open>DeepCopy<SHMEMSpace, SHMEMSpace>(dst, src, n)\<close>, used by
  \<^verbatim>\<open>reallocate_tracked\<close> and declared in a header that is not part of the source file.
  The spec requires of all three directions a synchronous, byte-exact copy of \<open>n\<close> bytes
  with \<^verbatim>\<open>memcpy\<close> semantics.
\<close>

definition DeepCopy_SHMEMSpace_SHMEMSpace :: "addr \<Rightarrow> addr \<Rightarrow> size_t \<Rightarrow> unit prog" where
  "DeepCopy_SHMEMSpace_SHMEMSpace dst src n = memcpy dst src n"

subsection \<open>The members of the record that the file inherits\<close>

text \<open>Reading the object a Record pointer points to: null and dangling pointers hold none.\<close>

definition deref :: "addr \<Rightarrow> SharedAllocationRecord prog" where
  "deref rp st =
     (if rp = 0 then (Inl UndefinedBehaviour, st)
      else case records st rp of None \<Rightarrow> (Inl UndefinedBehaviour, st) | Some r \<Rightarrow> (Inr r, st))"

text \<open>
  Modelled from the spec: \<^verbatim>\<open>SharedAllocationHeader::get_header\<close>, \<^verbatim>\<open>data()\<close> and
  \<^verbatim>\<open>size()\<close> of the base class, which are not part of the source file. The header
  immediately precedes the user data at a fixed offset, \<open>header_of(user_ptr) =
  user_ptr - sizeof(Header)\<close>, and the user size does not include the header.
\<close>

definition get_header :: "build \<Rightarrow> addr \<Rightarrow> addr" where
  "get_header cfg alloc_ptr = alloc_ptr - sizeof_Header cfg"

definition data :: "build \<Rightarrow> 'a RecordBase_scheme \<Rightarrow> addr" where
  "data cfg r = m_alloc_ptr r + sizeof_Header cfg"

definition size_Record :: "build \<Rightarrow> 'a RecordBase_scheme \<Rightarrow> size_t" where
  "size_Record cfg r = m_alloc_size r - sizeof_Header cfg"

text \<open>
  Modelled from the spec: \<^verbatim>\<open>get_label()\<close>, not part of the source file: the label of the
  Record, which is the C string held by the label buffer of its header.
\<close>

definition get_label :: "SharedAllocationRecord \<Rightarrow> string prog" where
  "get_label r st =
     (case headers st (m_alloc_ptr r) of
        None \<Rightarrow> (Inl UndefinedBehaviour, st)
      | Some h \<Rightarrow> (Inr (c_str (m_label h)), st))"

text \<open>
  Modelled from the spec: the constructor of the base class, not part of the source file.
  It stores the block pointer and the block size, starts the reference count at zero, fails
  with an allocation-failure condition when the block pointer is null, and otherwise links
  the Record into the registry (the source hands it the root only under
  \<^verbatim>\<open>KOKKOS_DEBUG\<close>).
\<close>

definition RecordBase_ctor :: "build \<Rightarrow> addr \<Rightarrow> addr \<Rightarrow> size_t \<Rightarrow> RecordBase prog" where
  "RecordBase_ctor cfg this arg_alloc_ptr arg_alloc_size st =
     (if arg_alloc_ptr = 0 then (Inl AllocationFailure, st)
      else (Inr \<lparr>m_alloc_ptr = arg_alloc_ptr, m_alloc_size = arg_alloc_size, m_count = 0\<rparr>,
            if KOKKOS_DEBUG cfg then st\<lparr>registry := this # registry st\<rparr> else st))"

text \<open>Modelled from the spec: \<^verbatim>\<open>RecordBase::increment\<close>, not part of the source file.\<close>

definition increment :: "addr \<Rightarrow> unit prog" where
  "increment rp =
     bnd (deref rp) (\<lambda>r st.
       (Inr (), st\<lparr>records := (records st)(rp \<mapsto> r\<lparr>m_count := m_count r + 1\<rparr>)\<rparr>))"

subsection \<open>Construction and destruction of a Record\<close>

text \<open>
  The destructor. The label handed to the profiling library is the label of the local
  \<^verbatim>\<open>SharedAllocationHeader header;\<close>, which the source declares and never fills.
\<close>

definition Record_dtor :: "build \<Rightarrow> addr \<Rightarrow> unit prog" where
  "Record_dtor cfg this =
     bnd (deref this) (\<lambda>r st.
       let header = uninitialized_header st;
           st1 = (if KOKKOS_ENABLE_PROFILING cfg \<and> profileLibraryLoaded st
                  then st\<lparr>trace := trace st @
                         [DeallocateData (space_name cfg) (c_str (m_label header))
                            (data cfg r) (size_Record cfg r)]\<rparr>
                  else st)
       in SHMEMSpace_deallocate (m_space r) (m_alloc_ptr r) (m_alloc_size r) st1)"

text \<open>
  \<^verbatim>\<open>SharedAllocationRecord<SHMEMSpace,void>::deallocate\<close>: \<^verbatim>\<open>delete\<close> runs the destructor
  and gives the object back.
\<close>

definition Record_deallocate :: "build \<Rightarrow> addr \<Rightarrow> unit prog" where
  "Record_deallocate cfg arg_rec =
     bnd (Record_dtor cfg arg_rec) (\<lambda>_ st.
       (Inr (), st\<lparr>records := (records st)(arg_rec := None)\<rparr>))"

text \<open>
  Modelled from the spec: \<^verbatim>\<open>RecordBase::decrement\<close>, not part of the source file. It
  decrements the reference count; when the count reaches zero the Record is unlinked from
  the registry and destroyed through its deallocation callback.
\<close>

definition decrement :: "build \<Rightarrow> addr \<Rightarrow> unit prog" where
  "decrement cfg rp =
     bnd (deref rp) (\<lambda>r st.
       let st1 = st\<lparr>records := (records st)(rp \<mapsto> r\<lparr>m_count := m_count r - 1\<rparr>)\<rparr> in
       if m_count r - 1 = 0
       then Record_deallocate cfg rp
              (if KOKKOS_DEBUG cfg then st1\<lparr>registry := remove1 rp (registry st1)\<rparr> else st1)
       else (Inr (), st1))"

text \<open>
  The constructor, running on the object at \<open>this\<close>: the block is requested from the
  space, handed to the base class, the allocation is reported to the profiling library,
  and the header is filled in (back-reference, then label).
\<close>

definition Record_ctor :: "build \<Rightarrow> addr \<Rightarrow> SHMEMSpace \<Rightarrow> string \<Rightarrow> size_t \<Rightarrow> unit prog" where
  "Record_ctor cfg this arg_space arg_label arg_alloc_size =
     bnd (SHMEMSpace_allocate cfg arg_space (sizeof_Header cfg + arg_alloc_size)) (\<lambda>ptr.
     bnd (RecordBase_ctor cfg this ptr (sizeof_Header cfg + arg_alloc_size)) (\<lambda>base st.
       let r = \<lparr>m_alloc_ptr = m_alloc_ptr base, m_alloc_size = m_alloc_size base,
                m_count = m_count base, m_space = arg_space\<rparr>;
           st1 = st\<lparr>records := (records st)(this \<mapsto> r)\<rparr>;
           st2 = (if KOKKOS_ENABLE_PROFILING cfg \<and> profileLibraryLoaded st1
                  then st1\<lparr>trace := trace st1 @
                         [AllocateData (space_name cfg) arg_label (data cfg r) arg_alloc_size]\<rparr>
                  else st1);
           label = strncpy (c_str arg_label) (maximum_label_length cfg)
       in (Inr (),
           st2\<lparr>headers := (headers st2)(m_alloc_ptr r \<mapsto> \<lparr>m_record = this, m_label = label\<rparr>)\<rparr>)))"

text \<open>
  Modelled from the spec: the factory \<^verbatim>\<open>allocate(space, label, size)\<close>, defined in a header
  that is not part of the source file. It creates the Record object and runs the
  constructor above on it; when the constructor fails, no Record object remains.
\<close>

definition allocate :: "build \<Rightarrow> SHMEMSpace \<Rightarrow> string \<Rightarrow> size_t \<Rightarrow> addr prog" where
  "allocate cfg arg_space arg_label arg_alloc_size st =
     (case new_oracle st of
        [] \<Rightarrow> (Inl BadAlloc, st)
      | this # rest \<Rightarrow>
          bnd (Record_ctor cfg this arg_space arg_label arg_alloc_size) (\<lambda>_. ret this)
            (st\<lparr>new_oracle := rest\<rparr>))"

subsection \<open>Tracked allocation\<close>

definition get_record_ERROR :: string where
  "get_record_ERROR =
     ''Kokkos::Impl::SharedAllocationRecord< Kokkos::Experimental::SHMEMSpace , void >::get_record ERROR''"

definition get_record :: "build \<Rightarrow> addr \<Rightarrow> addr prog" where
  "get_record cfg alloc_ptr st =
     (let head = (if alloc_ptr \<noteq> 0 then get_header cfg alloc_ptr else 0) in
      case (if head \<noteq> 0
            then (case headers st head of
                    None \<Rightarrow> Inl UndefinedBehaviour
                  | Some h \<Rightarrow> Inr (m_record h))
            else Inr 0) of
        Inl e \<Rightarrow> (Inl e, st)
      | Inr record \<Rightarrow>
          if alloc_ptr = 0 then (Inl (RuntimeException get_record_ERROR), st)
          else bnd (deref record) (\<lambda>r.
                 if m_alloc_ptr r \<noteq> head then raise (RuntimeException get_record_ERROR)
                 else ret record) st)"

definition allocate_tracked :: "build \<Rightarrow> SHMEMSpace \<Rightarrow> string \<Rightarrow> size_t \<Rightarrow> addr prog" where
  "allocate_tracked cfg arg_space arg_alloc_label arg_alloc_size =
     (if arg_alloc_size = 0 then ret 0
      else bnd (allocate cfg arg_space arg_alloc_label arg_alloc_size) (\<lambda>r.
           bnd (increment r) (\<lambda>_.
           bnd (deref r) (\<lambda>rec. ret (data cfg rec)))))"

definition deallocate_tracked :: "build \<Rightarrow> addr \<Rightarrow> unit prog" where
  "deallocate_tracked cfg arg_alloc_ptr =
     (if arg_alloc_ptr \<noteq> 0
      then bnd (get_record cfg arg_alloc_ptr) (\<lambda>r. decrement cfg r)
      else ret ())"

definition reallocate_tracked :: "build \<Rightarrow> addr \<Rightarrow> size_t \<Rightarrow> addr prog" where
  "reallocate_tracked cfg arg_alloc_ptr arg_alloc_size =
     bnd (get_record cfg arg_alloc_ptr) (\<lambda>r_old.
     bnd (deref r_old) (\<lambda>old.
     bnd (get_label old) (\<lambda>label.
     bnd (allocate cfg (m_space old) label arg_alloc_size) (\<lambda>r_new.
     bnd (deref r_new) (\<lambda>new.
     bnd (DeepCopy_SHMEMSpace_SHMEMSpace (data cfg new) (data cfg old)
            (min (size_Record cfg old) (size_Record cfg new))) (\<lambda>_.
     bnd (increment r_new) (\<lambda>_.
     bnd (decrement cfg r_old) (\<lambda>_.
     bnd (deref r_new) (\<lambda>new'. ret (data cfg new'))))))))))"

subsection \<open>Concrete builds, spaces and states\<close>

text \<open>
  A build with a 128-byte header (a pointer and 120 characters of label), debugging and
  profiling compiled in, and a small build with a 16-byte header that holds 8 characters.
\<close>

definition kokkos_build :: build where
  "kokkos_build = \<lparr>sizeof_Header = 128, maximum_label_length = 120, Symmetric = 0,
     space_name = ''SHMEM'', KOKKOS_DEBUG = True, KOKKOS_ENABLE_PROFILING = True\<rparr>"

definition small_build :: build where
  "small_build = \<lparr>sizeof_Header = 16, maximum_label_length = 8, Symmetric = 0,
     space_name = ''SHMEM'', KOKKOS_DEBUG = False, KOKKOS_ENABLE_PROFILING = False\<rparr>"

definition symmetric_space :: SHMEMSpace where
  "symmetric_space = \<lparr>allocation_mode = 0, extent = 0\<rparr>"

definition cached_space :: SHMEMSpace where
  "cached_space = \<lparr>allocation_mode = 1, extent = 0\<rparr>"

text \<open>Nothing allocated yet; the heap will answer 0x1000 and then 0x2000.\<close>

definition fresh_state :: state where
  "fresh_state = \<lparr>memory = (\<lambda>_. 0), headers = Map.empty, records = Map.empty, registry = [],
     trace = [], malloc_oracle = [0x1000, 0x2000], new_oracle = [0x500, 0x600],
     profileLibraryLoaded = True,
     uninitialized_header = \<lparr>m_record = 0, m_label = replicate 120 NUL\<rparr>\<rparr>"

text \<open>
  One tracked allocation of 8 bytes labelled \<open>buf\<close>: the Record at 0x500 owns the block at
  0x1000, the user data starts at 0x1080 and holds AB CD. The memory at 0x3000 holds a
  stale copy of that header, and the stack holds the label \<open>stale\<close> where the destructor
  will place its local header.
\<close>

definition tracked_state :: state where
  "tracked_state =
     \<lparr>memory = (\<lambda>a. if a = 0x1080 then 0xAB else if a = 0x1081 then 0xCD else 0),
      headers = [0x1000 \<mapsto> \<lparr>m_record = 0x500, m_label = strncpy ''buf'' 120\<rparr>,
                 0x3000 \<mapsto> \<lparr>m_record = 0x500, m_label = strncpy ''buf'' 120\<rparr>],
      records = [0x500 \<mapsto> \<lparr>m_alloc_ptr = 0x1000, m_alloc_size = 136, m_count = 1,
                            m_space = symmetric_space\<rparr>],
      registry = [0x500],
      trace = [MallocCall 136 0x1000, AllocateData ''SHMEM'' ''buf'' 0x1080 8],
      malloc_oracle = [0x2000], new_oracle = [0x600],
      profileLibraryLoaded = True,
      uninitialized_header = \<lparr>m_record = 0, m_label = strncpy ''stale'' 120\<rparr>\<rparr>"

section \<open>Properties\<close>

subsection \<open>Auxiliary facts\<close>

lemma block_no_wrap:
  fixes blk hs n :: "64 word"
  assumes "unat blk + unat hs + unat n < 2 ^ 64" and "blk \<noteq> 0" and "hs \<noteq> 0 \<or> n \<noteq> 0"
  shows "hs + n \<noteq> 0" and "blk + hs \<noteq> 0"
proof -
  have b: "0 < unat blk"
    using assms(2) by (simp add: unat_gt_0)
  have s: "0 < unat hs + unat n"
    using assms(3) by (auto simp: unat_gt_0)
  have "unat hs + unat n < 2 ^ LENGTH(64)"
    using assms(1) by simp
  then have "unat (hs + n) = unat hs + unat n"
    by (simp only: unat_add_lem)
  with s have "0 < unat (hs + n)" by simp
  then show "hs + n \<noteq> 0" by (simp add: unat_gt_0)
  have "unat blk + unat hs < 2 ^ LENGTH(64)"
    using assms(1) by simp
  then have "unat (blk + hs) = unat blk + unat hs"
    by (simp only: unat_add_lem)
  with b have "0 < unat (blk + hs)" by simp
  then show "blk + hs \<noteq> 0" by (simp add: unat_gt_0)
qed

lemma c_str_NUL_free: "c \<in> set (c_str s) \<Longrightarrow> c \<noteq> NUL"
  unfolding c_str_def by (auto dest: set_takeWhileD)



text \<open>Read back as a C string, the buffer \<^verbatim>\<open>strncpy\<close> wrote is the truncated string.\<close>

lemma c_str_strncpy: "c_str (strncpy (c_str s) n) = take n (c_str s)"
proof -
  let ?pad = "replicate (n - length (c_str s)) NUL"
  have "\<And>x. x \<in> set (take n (c_str s)) \<Longrightarrow> x \<noteq> NUL"
    by (auto dest: in_set_takeD c_str_NUL_free)
  then have "takeWhile (\<lambda>c. c \<noteq> NUL) (take n (c_str s) @ ?pad)
             = take n (c_str s) @ takeWhile (\<lambda>c. c \<noteq> NUL) ?pad"
    by (rule takeWhile_append2)
  moreover have "takeWhile (\<lambda>c. c \<noteq> NUL) ?pad = []"
    by (cases "n - length (c_str s)") simp_all
  ultimately show ?thesis
    by (simp add: strncpy_def c_str_def [of "take n (c_str s) @ ?pad"])
qed

lemma get_record_null:
  "get_record cfg 0 st = (Inl (RuntimeException get_record_ERROR), st)"
  by (simp add: get_record_def)

lemma memcpy_copies:
  assumes "\<not> regions_overlap dst src n"
  shows "fst (memcpy dst src n st) = Inr ()"
    and "i < unat n \<Longrightarrow>
           memory (snd (memcpy dst src n st)) (dst + of_nat i) = memory st (src + of_nat i)"
    and "\<not> unat (a - dst) < unat n \<Longrightarrow> memory (snd (memcpy dst src n st)) a = memory st a"
proof -
  show "fst (memcpy dst src n st) = Inr ()"
    using assms by (simp add: memcpy_def)
  show "memory (snd (memcpy dst src n st)) (dst + of_nat i) = memory st (src + of_nat i)"
    if "i < unat n"
  proof -
    have "i < 2 ^ 64"
      using that unsigned_less [of n, where ?'a = nat] by simp
    then have "unat (of_nat i :: 64 word) = i"
      by (simp add: unat_of_nat)
    with that assms show ?thesis
      by (simp add: memcpy_def)
  qed
  show "memory (snd (memcpy dst src n st)) a = memory st a" if "\<not> unat (a - dst) < unat n"
    using that assms by (simp add: memcpy_def)
qed




subsection \<open>SHMEMSpace::allocate\<close>

text \<open>
  C7. For a size of zero, \<^verbatim>\<open>SHMEMSpace::allocate\<close> returns the null pointer and leaves the
  state as it was, whatever the allocation mode: the mode is tested only for a nonzero
  size, so there is no abort.
\<close>

theorem SHMEMSpace_allocate_zero:
  "SHMEMSpace_allocate cfg this 0 st = (Inr 0, st)"
  by (simp add: SHMEMSpace_allocate_def)

text \<open>
  C6. For a nonzero size, \<^verbatim>\<open>SHMEMSpace::allocate\<close> aborts when the allocation mode is not
  \<^verbatim>\<open>Symmetric\<close>, without having asked the symmetric heap for anything (the state is
  unchanged); when the mode is \<^verbatim>\<open>Symmetric\<close> it returns the pointer \<^verbatim>\<open>shmem_malloc\<close>
  gives for that size.
\<close>

theorem SHMEMSpace_allocate_nonzero:
  assumes "arg_alloc_size \<noteq> 0"
  shows "SHMEMSpace_allocate cfg this arg_alloc_size st =
     (if allocation_mode this = Symmetric cfg
      then (Inr (fst (shmem_malloc arg_alloc_size st)), snd (shmem_malloc arg_alloc_size st))
      else (Inl (Abort ''SHMEMSpace only supports symmetric allocation policy.''), st))"
proof (cases "allocation_mode this = Symmetric cfg")
  case True
  with assms show ?thesis
    by (simp add: SHMEMSpace_allocate_def split: prod.split)
next
  case False
  with assms show ?thesis
    by (simp add: SHMEMSpace_allocate_def)
qed

text \<open>C6 at a size of 8: a space in another mode aborts, a symmetric one returns 0x1000.\<close>

theorem SHMEMSpace_allocate_nonzero_witness:
  "(8 :: size_t) \<noteq> 0
   \<and> SHMEMSpace_allocate kokkos_build cached_space 8 fresh_state =
       (Inl (Abort ''SHMEMSpace only supports symmetric allocation policy.''), fresh_state)
   \<and> fst (SHMEMSpace_allocate kokkos_build symmetric_space 8 fresh_state) = Inr 0x1000
   \<and> trace (snd (SHMEMSpace_allocate kokkos_build symmetric_space 8 fresh_state)) =
       [MallocCall 8 0x1000]"
  using SHMEMSpace_allocate_nonzero [of 8 kokkos_build cached_space fresh_state]
        SHMEMSpace_allocate_nonzero [of 8 kokkos_build symmetric_space fresh_state]
  by (simp add: kokkos_build_def symmetric_space_def cached_space_def fresh_state_def
        shmem_malloc_def)

subsection \<open>Cross-space copies\<close>

text \<open>
  C9. When the destination and the source regions of \<open>n\<close> bytes do not overlap, each of the
  two copies between HostSpace and SHMEMSpace succeeds, byte \<open>i\<close> of the destination is
  byte \<open>i\<close> of the source for every \<open>i < n\<close>, and no byte outside the destination region
  changes: exactly \<open>n\<close> bytes are copied, never fewer.
\<close>

theorem DeepCopy_copies_n_bytes:
  assumes "\<not> regions_overlap dst src n"
  shows "fst (DeepCopy_HostSpace_SHMEMSpace dst src n st) = Inr ()
       \<and> (\<forall>i. i < unat n \<longrightarrow>
            memory (snd (DeepCopy_HostSpace_SHMEMSpace dst src n st)) (dst + of_nat i) =
            memory st (src + of_nat i))
       \<and> (\<forall>a. \<not> unat (a - dst) < unat n \<longrightarrow>
            memory (snd (DeepCopy_HostSpace_SHMEMSpace dst src n st)) a = memory st a)
       \<and> fst (DeepCopy_SHMEMSpace_HostSpace dst src n st) = Inr ()
       \<and> (\<forall>i. i < unat n \<longrightarrow>
            memory (snd (DeepCopy_SHMEMSpace_HostSpace dst src n st)) (dst + of_nat i) =
            memory st (src + of_nat i))
       \<and> (\<forall>a. \<not> unat (a - dst) < unat n \<longrightarrow>
            memory (snd (DeepCopy_SHMEMSpace_HostSpace dst src n st)) a = memory st a)"
  unfolding DeepCopy_HostSpace_SHMEMSpace_def DeepCopy_SHMEMSpace_HostSpace_def
  using memcpy_copies [OF assms] by blast

text \<open>C9 on the two bytes AB CD at 0x1080, copied to 0x2080 in either direction.\<close>

theorem DeepCopy_copies_n_bytes_witness:
  "\<not> regions_overlap 0x2080 0x1080 2
   \<and> fst (DeepCopy_HostSpace_SHMEMSpace 0x2080 0x1080 2 tracked_state) = Inr ()
   \<and> memory (snd (DeepCopy_HostSpace_SHMEMSpace 0x2080 0x1080 2 tracked_state)) 0x2080 = 0xAB
   \<and> memory (snd (DeepCopy_HostSpace_SHMEMSpace 0x2080 0x1080 2 tracked_state)) 0x2081 = 0xCD
   \<and> memory (snd (DeepCopy_HostSpace_SHMEMSpace 0x2080 0x1080 2 tracked_state)) 0x2082 = 0
   \<and> memory (snd (DeepCopy_SHMEMSpace_HostSpace 0x2080 0x1080 2 tracked_state)) 0x2080 = 0xAB
   \<and> memory (snd (DeepCopy_SHMEMSpace_HostSpace 0x2080 0x1080 2 tracked_state)) 0x2081 = 0xCD
   \<and> memory (snd (DeepCopy_SHMEMSpace_HostSpace 0x2080 0x1080 2 tracked_state)) 0x1080 = 0xAB"
proof -
  have h: "\<not> regions_overlap 0x2080 0x1080 2"
    by (simp add: regions_overlap_def)
  from DeepCopy_copies_n_bytes [OF h, of tracked_state] h show ?thesis
    by (simp add: DeepCopy_HostSpace_SHMEMSpace_def DeepCopy_SHMEMSpace_HostSpace_def
          memcpy_def tracked_state_def)
qed

subsection \<open>Looking a Record up from a user pointer\<close>




text \<open>
  C10. On the null pointer \<^verbatim>\<open>get_record\<close> raises its runtime exception; so does
  \<^verbatim>\<open>reallocate_tracked\<close>, which calls it first and unguarded, before anything is allocated;
  \<^verbatim>\<open>deallocate_tracked\<close> tests for null itself and returns without calling it.
\<close>

theorem null_pointer_lookup_raises:
  "get_record cfg 0 st = (Inl (RuntimeException get_record_ERROR), st)
   \<and> reallocate_tracked cfg 0 arg_alloc_size st = (Inl (RuntimeException get_record_ERROR), st)
   \<and> deallocate_tracked cfg 0 st = (Inr (), st)"
proof (intro conjI)
  show "get_record cfg 0 st = (Inl (RuntimeException get_record_ERROR), st)"
    by (rule get_record_null)
  then show "reallocate_tracked cfg 0 arg_alloc_size st =
               (Inl (RuntimeException get_record_ERROR), st)"
    by (simp add: reallocate_tracked_def bnd_def)
  show "deallocate_tracked cfg 0 st = (Inr (), st)"
    by (simp add: deallocate_tracked_def ret_def)
qed

subsection \<open>Tracked allocation and deallocation\<close>

text \<open>
  C8. With a size of zero \<^verbatim>\<open>allocate_tracked\<close> returns the null pointer at once: no Record
  is created and the whole state, the registry included, is as before. On the null pointer
  \<^verbatim>\<open>deallocate_tracked\<close> does nothing: no lookup, no change of a reference count.
\<close>

theorem tracked_null_is_noop:
  "allocate_tracked cfg arg_space arg_alloc_label 0 st = (Inr 0, st)
   \<and> deallocate_tracked cfg 0 st = (Inr (), st)"
  by (simp add: allocate_tracked_def deallocate_tracked_def ret_def)

text \<open>
  C1, as the code has it. Let the size be nonzero, the space be in \<^verbatim>\<open>Symmetric\<close> mode, the
  symmetric heap answer with a non-null block that ends below the top of the address space,
  and the Record object be created. Then \<^verbatim>\<open>allocate_tracked\<close> returns the non-null
  pointer just behind the header of that block; \<^verbatim>\<open>get_record\<close> on it returns the Record
  this call created; the Record's \<^verbatim>\<open>size()\<close> is the requested size, without the header;
  its reference count is 1; and the label buffer of the header holds the label (as a C
  string) cut to \<^verbatim>\<open>maximum_label_length\<close> characters.
\<close>

theorem allocate_tracked_roundtrip:
  assumes "arg_alloc_size \<noteq> 0"
      and "allocation_mode arg_space = Symmetric cfg"
      and "malloc_oracle st = blk # blks" and "blk \<noteq> 0"
      and "unat blk + unat (sizeof_Header cfg) + unat arg_alloc_size < 2 ^ 64"
      and "new_oracle st = this # rest" and "this \<noteq> 0"
  shows "\<exists>st' r h.
           allocate_tracked cfg arg_space arg_alloc_label arg_alloc_size st =
             (Inr (blk + sizeof_Header cfg), st')
         \<and> blk + sizeof_Header cfg \<noteq> 0
         \<and> get_record cfg (blk + sizeof_Header cfg) st' = (Inr this, st')
         \<and> records st' this = Some r
         \<and> size_Record cfg r = arg_alloc_size
         \<and> m_alloc_ptr r = blk \<and> m_count r = 1 \<and> m_space r = arg_space
         \<and> headers st' blk = Some h
         \<and> m_record h = this
         \<and> m_label h = strncpy (c_str arg_alloc_label) (maximum_label_length cfg)
         \<and> c_str (m_label h) = take (maximum_label_length cfg) (c_str arg_alloc_label)"
proof -
  have "sizeof_Header cfg \<noteq> 0 \<or> arg_alloc_size \<noteq> 0"
    using assms(1) by simp
  note nz = block_no_wrap [OF assms(5) assms(4) this]
  show ?thesis
    using assms(1-4,6,7) nz
    by (simp add: allocate_tracked_def allocate_def Record_ctor_def SHMEMSpace_allocate_def
          shmem_malloc_def RecordBase_ctor_def increment_def deref_def bnd_def ret_def raise_def
          get_record_def get_header_def data_def size_Record_def Let_def c_str_strncpy)
qed

text \<open>
  C1 on a build whose header holds 8 characters: 8 bytes labelled \<open>temperature\<close> are
  returned at 0x1010, and the header reads \<open>temperat\<close>.
\<close>

theorem allocate_tracked_roundtrip_witness:
  "(8 :: size_t) \<noteq> 0
   \<and> allocation_mode symmetric_space = Symmetric small_build
   \<and> malloc_oracle fresh_state = [0x1000, 0x2000] \<and> (0x1000 :: addr) \<noteq> 0
   \<and> unat (0x1000 :: addr) + unat (sizeof_Header small_build) + unat (8 :: size_t) < 2 ^ 64
   \<and> new_oracle fresh_state = [0x500, 0x600] \<and> (0x500 :: addr) \<noteq> 0
   \<and> fst (allocate_tracked small_build symmetric_space ''temperature'' 8 fresh_state) = Inr 0x1010
   \<and> fst (get_record small_build 0x1010
            (snd (allocate_tracked small_build symmetric_space ''temperature'' 8 fresh_state))) =
       Inr 0x500
   \<and> records (snd (allocate_tracked small_build symmetric_space ''temperature'' 8 fresh_state))
        0x500 =
       Some \<lparr>m_alloc_ptr = 0x1000, m_alloc_size = 24, m_count = 1, m_space = symmetric_space\<rparr>
   \<and> size_Record small_build
        \<lparr>m_alloc_ptr = 0x1000, m_alloc_size = 24, m_count = 1, m_space = symmetric_space\<rparr> = 8
   \<and> headers (snd (allocate_tracked small_build symmetric_space ''temperature'' 8 fresh_state))
        0x1000 =
       Some \<lparr>m_record = 0x500, m_label = ''temperat''\<rparr>"
  using allocate_tracked_roundtrip
          [of 8 symmetric_space small_build fresh_state "0x1000" "[0x2000]" "0x500" "[0x600]"
              "''temperature''"]
  by (simp add: allocate_tracked_def allocate_def Record_ctor_def SHMEMSpace_allocate_def
        shmem_malloc_def RecordBase_ctor_def increment_def deref_def bnd_def ret_def raise_def
        get_record_def get_header_def data_def size_Record_def Let_def
        small_build_def symmetric_space_def fresh_state_def c_str_def strncpy_def NUL_def)

text \<open>
  C1 as stated fails: for a size of 8, a space in another mode makes \<^verbatim>\<open>allocate_tracked\<close>
  abort, and a symmetric heap that answers null makes it fail with the allocation failure;
  neither call returns a pointer.
\<close>

theorem allocate_tracked_can_fail:
  "(8 :: size_t) \<noteq> 0
   \<and> fst (allocate_tracked kokkos_build cached_space ''buf'' 8 fresh_state) =
       Inl (Abort ''SHMEMSpace only supports symmetric allocation policy.'')
   \<and> fst (allocate_tracked kokkos_build symmetric_space ''buf'' 8
            (fresh_state\<lparr>malloc_oracle := []\<rparr>)) = Inl AllocationFailure"
  by (simp add: allocate_tracked_def allocate_def Record_ctor_def SHMEMSpace_allocate_def
        shmem_malloc_def RecordBase_ctor_def bnd_def ret_def kokkos_build_def
        symmetric_space_def cached_space_def fresh_state_def)

text \<open>
  C4. When the space's \<^verbatim>\<open>allocate\<close> returns null for the block of header and user data,
  the factory fails with the allocation failure, which reaches its caller; no Record is
  created, no header is written and the registry is as before. (The Record object itself is
  assumed to be available.)
\<close>

theorem allocate_null_block_fails:
  assumes "fst (SHMEMSpace_allocate cfg arg_space (sizeof_Header cfg + arg_alloc_size) st) = Inr 0"
      and "new_oracle st = this # rest"
  shows "fst (allocate cfg arg_space arg_label arg_alloc_size st) = Inl AllocationFailure
       \<and> records (snd (allocate cfg arg_space arg_label arg_alloc_size st)) = records st
       \<and> headers (snd (allocate cfg arg_space arg_label arg_alloc_size st)) = headers st
       \<and> registry (snd (allocate cfg arg_space arg_label arg_alloc_size st)) = registry st"
  using assms
  by (auto simp: allocate_def Record_ctor_def SHMEMSpace_allocate_def shmem_malloc_def
        RecordBase_ctor_def bnd_def ret_def split: if_splits list.splits)

text \<open>C4 for 8 bytes when the symmetric heap has nothing left.\<close>

theorem allocate_null_block_fails_witness:
  "fst (SHMEMSpace_allocate kokkos_build symmetric_space (sizeof_Header kokkos_build + 8)
          (fresh_state\<lparr>malloc_oracle := []\<rparr>)) = Inr 0
   \<and> new_oracle (fresh_state\<lparr>malloc_oracle := []\<rparr>) = [0x500, 0x600]
   \<and> fst (allocate kokkos_build symmetric_space ''buf'' 8 (fresh_state\<lparr>malloc_oracle := []\<rparr>)) =
       Inl AllocationFailure
   \<and> records (snd (allocate kokkos_build symmetric_space ''buf'' 8
                     (fresh_state\<lparr>malloc_oracle := []\<rparr>))) = Map.empty"
proof -
  let ?st = "fresh_state\<lparr>malloc_oracle := []\<rparr>"
  have h: "fst (SHMEMSpace_allocate kokkos_build symmetric_space
                  (sizeof_Header kokkos_build + 8) ?st) = Inr 0"
    by (simp add: SHMEMSpace_allocate_def shmem_malloc_def kokkos_build_def symmetric_space_def
          fresh_state_def)
  have n: "new_oracle ?st = [0x500, 0x600]"
    by (simp add: fresh_state_def)
  from allocate_null_block_fails [OF h n, of "''buf''"] h n show ?thesis
    by (simp add: fresh_state_def)
qed

subsection \<open>Destruction\<close>

text \<open>
  C5 does not hold of the code. The destructor of the Record labelled \<open>buf\<close> reports the
  deallocation before the block is freed, with the user pointer and the user size, and then
  frees the whole block; but the label it reports is the one found in its local header,
  here \<open>stale\<close>, not the Record's.
\<close>

theorem Record_dtor_reports_uninitialized_label:
  "records tracked_state 0x500 =
     Some \<lparr>m_alloc_ptr = 0x1000, m_alloc_size = 136, m_count = 1, m_space = symmetric_space\<rparr>
   \<and> fst (get_label \<lparr>m_alloc_ptr = 0x1000, m_alloc_size = 136, m_count = 1,
                      m_space = symmetric_space\<rparr> tracked_state) = Inr ''buf''
   \<and> fst (Record_dtor kokkos_build 0x500 tracked_state) = Inr ()
   \<and> trace (snd (Record_dtor kokkos_build 0x500 tracked_state)) =
       trace tracked_state @ [DeallocateData ''SHMEM'' ''stale'' 0x1080 8, FreeCall 0x1000]"
  by (simp add: tracked_state_def kokkos_build_def symmetric_space_def Record_dtor_def deref_def
        bnd_def get_label_def SHMEMSpace_deallocate_def shmem_free_def data_def size_Record_def
        c_str_def strncpy_def NUL_def Let_def)

subsection \<open>Reallocation\<close>




end
